theory Spec2Isabelle
  imports Main "HOL-Library.Word"
begin

section \<open>Python values\<close>

text \<open>
  A Python \<^verbatim>\<open>str\<close> is a sequence of Unicode code points, so it is a list of naturals
  here; \<open>py\<close> turns an ASCII literal of the source into that list. A \<^verbatim>\<open>bytes\<close> object
  is a list of octets.
\<close>

type_synonym pystr = "nat list"
type_synonym bytes = "8 word list"

definition py :: "string \<Rightarrow> pystr" where
  "py s = map of_char s"

text \<open>
  \<^verbatim>\<open>str.isspace\<close> for one code point (the table of CPython's
  \<^verbatim>\<open>_PyUnicode_IsWhitespace\<close>), and \<^verbatim>\<open>str.strip()\<close> without argument, which
  drops the whitespace at both ends.
\<close>

definition isspace :: "nat \<Rightarrow> bool" where
  "isspace c \<longleftrightarrow>
     (9 \<le> c \<and> c \<le> 13) \<or> (28 \<le> c \<and> c \<le> 32) \<or> c = 133 \<or> c = 160 \<or> c = 5760 \<or>
     (8192 \<le> c \<and> c \<le> 8202) \<or> c = 8232 \<or> c = 8233 \<or> c = 8239 \<or> c = 8287 \<or> c = 12288"

definition strip :: "pystr \<Rightarrow> pystr" where
  "strip s = rev (dropWhile isspace (rev (dropWhile isspace s)))"

text \<open>\<^verbatim>\<open>sep.join(xs)\<close>.\<close>

fun join :: "pystr \<Rightarrow> pystr list \<Rightarrow> pystr" where
  "join sep [] = []"
| "join sep [x] = x"
| "join sep (x # y # ys) = x @ sep @ join sep (y # ys)"

text \<open>
  A Python \<^verbatim>\<open>float\<close> is kept as data (sign, significand, exponent, or one of the
  special values); the only operation on it in this program is its truth value.
\<close>

datatype pyfloat = Finite bool nat int | Infinite bool | NaN

fun float_nonzero :: "pyfloat \<Rightarrow> bool" where
  "float_nonzero (Finite s m e) = (m \<noteq> 0)"
| "float_nonzero (Infinite s) = True"
| "float_nonzero NaN = True"

text \<open>
  The objects \<^verbatim>\<open>json.loads\<close> produces: \<^verbatim>\<open>None\<close>, \<^verbatim>\<open>bool\<close>, \<^verbatim>\<open>int\<close>,
  \<^verbatim>\<open>float\<close>, \<^verbatim>\<open>str\<close>, \<^verbatim>\<open>list\<close> and \<^verbatim>\<open>dict\<close>. A dict is the list of its items
  (its keys are distinct).
\<close>

datatype json =
    JNull
  | JBool bool
  | JInt int
  | JFloat pyfloat
  | JStr pystr
  | JArray "json list"
  | JObject "(pystr \<times> json) list"

text \<open>Python's truth value of an object (\<^verbatim>\<open>bool(x)\<close>, \<^verbatim>\<open>x or y\<close>, \<^verbatim>\<open>if x\<close>).\<close>

fun truthy :: "json \<Rightarrow> bool" where
  "truthy JNull = False"
| "truthy (JBool b) = b"
| "truthy (JInt i) = (i \<noteq> 0)"
| "truthy (JFloat f) = float_nonzero f"
| "truthy (JStr s) = (s \<noteq> [])"
| "truthy (JArray xs) = (xs \<noteq> [])"
| "truthy (JObject items) = (items \<noteq> [])"

text \<open>\<^verbatim>\<open>d.get(key, default)\<close> on the items of a dict.\<close>

definition dict_get :: "(pystr \<times> 'v) list \<Rightarrow> pystr \<Rightarrow> 'v \<Rightarrow> 'v" where
  "dict_get items key dflt = (case map_of items key of Some v \<Rightarrow> v | None \<Rightarrow> dflt)"

text \<open>
  A raised exception: whether it is an instance of the class \<^verbatim>\<open>Exception\<close> (it is not
  for \<^verbatim>\<open>KeyboardInterrupt\<close>, \<^verbatim>\<open>SystemExit\<close>, \<^verbatim>\<open>GeneratorExit\<close> and
  \<^verbatim>\<open>asyncio.CancelledError\<close>, which derive from \<^verbatim>\<open>BaseException\<close> only), and its
  \<^verbatim>\<open>str()\<close>. \<^verbatim>\<open>StopIteration\<close>, an \<^verbatim>\<open>Exception\<close>, is kept apart, because a
  coroutine does not let it through. A computation that may raise returns
  \<open>py_exception + 'a\<close>.
\<close>

datatype py_exception =
    PyExc (is_Exception: bool) (exc_str: pystr)
  | StopIteration (exc_str: pystr)
where
  "is_Exception (StopIteration s) = True"

text \<open>
  What the interpreter supplies: \<^verbatim>\<open>str(x)\<close> for numbers, lists and dicts, and
  \<^verbatim>\<open>float(x)\<close>, which raises on what it cannot convert.
\<close>

record runtime =
  str_of :: "json \<Rightarrow> pystr"
  float_of :: "json \<Rightarrow> py_exception + pyfloat"

fun py_str :: "runtime \<Rightarrow> json \<Rightarrow> pystr" where
  "py_str rt (JStr s) = s"
| "py_str rt JNull = py ''None''"
| "py_str rt (JBool b) = (if b then py ''True'' else py ''False'')"
| "py_str rt v = str_of rt v"

text \<open>The name of an object's type, and the error of calling \<^verbatim>\<open>.get\<close> on a non-dict.\<close>

fun type_name :: "json \<Rightarrow> string" where
  "type_name JNull = ''NoneType''"
| "type_name (JBool b) = ''bool''"
| "type_name (JInt i) = ''int''"
| "type_name (JFloat f) = ''float''"
| "type_name (JStr s) = ''str''"
| "type_name (JArray xs) = ''list''"
| "type_name (JObject items) = ''dict''"

definition AttributeError :: "json \<Rightarrow> string \<Rightarrow> py_exception" where
  "AttributeError obj attr =
     PyExc True ([39] @ py (type_name obj) @ [39] @ py '' object has no attribute '' @
                 [39] @ py attr @ [39])"

section \<open>The HTTP responses\<close>

datatype payload = JsonPayload json | BytesPayload bytes

record response =
  status :: nat
  mimetype :: pystr
  body :: payload

text \<open>
  \<^verbatim>\<open>jsonify(d)\<close>, \<^verbatim>\<open>Response(data, mimetype=m)\<close>, and the view's
  \<^verbatim>\<open>return resp, code\<close>.
\<close>

definition jsonify :: "(pystr \<times> json) list \<Rightarrow> response" where
  "jsonify d = \<lparr>status = 200, mimetype = py ''application/json'', body = JsonPayload (JObject d)\<rparr>"

definition Response :: "bytes \<Rightarrow> pystr \<Rightarrow> response" where
  "Response data m = \<lparr>status = 200, mimetype = m, body = BytesPayload data\<rparr>"

definition with_status :: "response \<Rightarrow> nat \<Rightarrow> response" where
  "with_status r code = r\<lparr>status := code\<rparr>"

section \<open>Constants of the server\<close>

definition DEFAULT_VOICE :: pystr where
  "DEFAULT_VOICE = py ''zh-CN-XiaoxiaoNeural''"

definition DEFAULT_RATE :: pystr where
  "DEFAULT_RATE = py ''+0%''"

definition DEFAULT_VOLUME :: pystr where
  "DEFAULT_VOLUME = py ''+0%''"

definition DEFAULT_PITCH :: pystr where
  "DEFAULT_PITCH = py ''+0Hz''"

definition FALLBACK_VOICES :: "json list" where
  "FALLBACK_VOICES =
     [JObject [(py ''ShortName'', JStr (py ''zh-CN-XiaoxiaoNeural'')),
               (py ''Locale'', JStr (py ''zh-CN'')), (py ''Gender'', JStr (py ''Female''))],
      JObject [(py ''ShortName'', JStr (py ''zh-CN-YunxiNeural'')),
               (py ''Locale'', JStr (py ''zh-CN'')), (py ''Gender'', JStr (py ''Male''))],
      JObject [(py ''ShortName'', JStr (py ''zh-CN-XiaoyiNeural'')),
               (py ''Locale'', JStr (py ''zh-CN'')), (py ''Gender'', JStr (py ''Female''))],
      JObject [(py ''ShortName'', JStr (py ''zh-CN-YunjianNeural'')),
               (py ''Locale'', JStr (py ''zh-CN'')), (py ''Gender'', JStr (py ''Male''))]]"

section \<open>build_boundary_option\<close>

definition build_boundary_option :: "bool \<Rightarrow> bool \<Rightarrow> pystr option" where
  "build_boundary_option word_boundary sentence_boundary =
     (let opts = [];
          opts = (if sentence_boundary then opts @ [py ''SentenceBoundary''] else opts);
          opts = (if word_boundary then opts @ [py ''WordBoundary''] else opts)
      in if opts = [] then None else Some (join (py '','') opts))"

section \<open>The synthesis client\<close>

text \<open>
  The keyword arguments handed to \<^verbatim>\<open>edge_tts.Communicate\<close> are a dict from names to
  strings and floats, kept as the list of its items in insertion order. A streamed chunk
  is a dict too; its values are strings, byte strings or numbers.
\<close>

datatype kwarg = KStr pystr | KFloat pyfloat

type_synonym kwargs = "(pystr \<times> kwarg) list"

datatype chunk_value = CStr pystr | CBytes bytes | CByteArray bytes | CNum int

type_synonym chunk = "(pystr \<times> chunk_value) list"

text \<open>
  The third-party client: \<^verbatim>\<open>edge_tts.Communicate(**kwargs)\<close> raises, or gives a stream
  that yields chunks and then ends (\<open>None\<close>) or raises (\<open>Some exc\<close>).
\<close>

type_synonym communicate = "kwargs \<Rightarrow> py_exception + (chunk list \<times> py_exception option)"

text \<open>
  The calls a handler makes are recorded in the order they happen: a call of
  \<^verbatim>\<open>synthesize_to_mp3_bytes\<close> with its arguments, a call of the client with its kwargs.
\<close>

record synth_args =
  arg_text :: pystr
  arg_voice :: pystr
  arg_rate :: pystr
  arg_volume :: pystr
  arg_pitch :: pystr
  arg_word_boundary :: bool
  arg_sentence_boundary :: bool
  arg_proxy :: "pystr option"
  arg_connect_timeout :: json
  arg_receive_timeout :: json

datatype event = SynthesizeCall synth_args | CommunicateCall kwargs

text \<open>
  \<^verbatim>\<open>run_async(coro)\<close> runs the coroutine in a worker thread and hands back its result,
  or re-raises what it raised.
\<close>

definition run_async :: "'a \<Rightarrow> 'a" where
  "run_async coro = coro"

text \<open>
  The outcome of running the body of an \<^verbatim>\<open>async def\<close>: a \<^verbatim>\<open>StopIteration\<close> that
  leaves the body is replaced by a \<^verbatim>\<open>RuntimeError\<close>; everything else passes.
\<close>

fun coroutine :: "py_exception + 'a \<Rightarrow> py_exception + 'a" where
  "coroutine (Inl (StopIteration s)) = Inl (PyExc True (py ''coroutine raised StopIteration''))"
| "coroutine (Inl (PyExc e s)) = Inl (PyExc e s)"
| "coroutine (Inr result) = Inr result"

section \<open>synthesize_to_mp3_bytes\<close>

text \<open>\<^verbatim>\<open>if timeout is not None: kwargs[key] = float(timeout)\<close>.\<close>

definition set_timeout :: "runtime \<Rightarrow> kwargs \<Rightarrow> string \<Rightarrow> json \<Rightarrow> py_exception + kwargs" where
  "set_timeout rt kwargs key timeout =
     (if timeout \<noteq> JNull then
        (case float_of rt timeout of
           Inl exc \<Rightarrow> Inl exc
         | Inr f \<Rightarrow> Inr (kwargs @ [(py key, KFloat f)]))
      else Inr kwargs)"

text \<open>The body of the \<^verbatim>\<open>async for\<close> loop, with the list \<^verbatim>\<open>chunks\<close> as accumulator.\<close>

fun collect_audio :: "bytes list \<Rightarrow> chunk list \<Rightarrow> bytes list" where
  "collect_audio chunks [] = chunks"
| "collect_audio chunks (chunk # rest) =
     collect_audio
       (if map_of chunk (py ''type'') = Some (CStr (py ''audio'')) then
          (case dict_get chunk (py ''data'') (CBytes []) of
             CBytes data \<Rightarrow> if data \<noteq> [] then chunks @ [data] else chunks
           | CByteArray data \<Rightarrow> if data \<noteq> [] then chunks @ [data] else chunks
           | _ \<Rightarrow> chunks)
        else chunks)
       rest"

definition synthesize_to_mp3_bytes ::
  "runtime \<Rightarrow> communicate \<Rightarrow> synth_args \<Rightarrow> event list \<times> (py_exception + bytes)" where
  "synthesize_to_mp3_bytes rt Communicate a =
     apsnd coroutine
     (let kwargs = [(py ''text'', KStr (arg_text a)),
                    (py ''voice'', KStr (arg_voice a)),
                    (py ''rate'', KStr (arg_rate a)),
                    (py ''volume'', KStr (arg_volume a)),
                    (py ''pitch'', KStr (arg_pitch a))];
          boundary = build_boundary_option (arg_word_boundary a) (arg_sentence_boundary a);
          kwargs = (case boundary of
                      Some b \<Rightarrow> if b \<noteq> [] then kwargs @ [(py ''boundary'', KStr b)] else kwargs
                    | None \<Rightarrow> kwargs);
          kwargs = (case arg_proxy a of
                      Some p \<Rightarrow> if p \<noteq> [] then kwargs @ [(py ''proxy'', KStr p)] else kwargs
                    | None \<Rightarrow> kwargs)
      in case set_timeout rt kwargs ''connect_timeout'' (arg_connect_timeout a) of
           Inl exc \<Rightarrow> ([], Inl exc)
         | Inr kwargs \<Rightarrow>
            (case set_timeout rt kwargs ''receive_timeout'' (arg_receive_timeout a) of
               Inl exc \<Rightarrow> ([], Inl exc)
             | Inr kwargs \<Rightarrow>
                ([CommunicateCall kwargs],
                 case Communicate kwargs of
                   Inl exc \<Rightarrow> Inl exc
                 | Inr (stream, raised) \<Rightarrow>
                    (let chunks = collect_audio [] stream
                     in case raised of
                          Some exc \<Rightarrow> Inl exc
                        | None \<Rightarrow> Inr (concat chunks)))))"

section \<open>The handlers\<close>

text \<open>
  \<^verbatim>\<open>POST /api/tts\<close>. The argument \<open>request_json\<close> is what
  \<^verbatim>\<open>request.get_json(silent=True)\<close> returns: \<open>None\<close> when the body is not JSON, the
  parsed value otherwise. The first \<^verbatim>\<open>data.get\<close> raises when \<^verbatim>\<open>data\<close> is not a
  dict; that is outside the \<^verbatim>\<open>try\<close>. The result is the trace of calls and either the
  response or the exception that leaves the handler.
\<close>

definition tts_api ::
  "runtime \<Rightarrow> communicate \<Rightarrow> json option \<Rightarrow> event list \<times> (py_exception + response)" where
  "tts_api rt Communicate request_json =
     (let data = (case request_json of
                    Some j \<Rightarrow> if truthy j then j else JObject []
                  | None \<Rightarrow> JObject [])
      in case data of
           JObject items \<Rightarrow>
            (let text = strip (py_str rt (dict_get items (py ''text'') (JStr (py []))));
                 voice = strip (py_str rt (dict_get items (py ''voice'') (JStr DEFAULT_VOICE)));
                 voice = (if voice \<noteq> [] then voice else DEFAULT_VOICE);
                 rate = strip (py_str rt (dict_get items (py ''rate'') (JStr DEFAULT_RATE)));
                 rate = (if rate \<noteq> [] then rate else DEFAULT_RATE);
                 volume = strip (py_str rt (dict_get items (py ''volume'') (JStr DEFAULT_VOLUME)));
                 volume = (if volume \<noteq> [] then volume else DEFAULT_VOLUME);
                 pitch = strip (py_str rt (dict_get items (py ''pitch'') (JStr DEFAULT_PITCH)));
                 pitch = (if pitch \<noteq> [] then pitch else DEFAULT_PITCH);
                 word_boundary = truthy (dict_get items (py ''word_boundary'') (JBool False));
                 sentence_boundary = truthy (dict_get items (py ''sentence_boundary'') (JBool False));
                 proxy = dict_get items (py ''proxy'') JNull;
                 proxy = (case proxy of
                            JStr p \<Rightarrow> if strip p \<noteq> [] then Some (strip p) else None
                          | _ \<Rightarrow> None);
                 connect_timeout = dict_get items (py ''connect_timeout'') JNull;
                 receive_timeout = dict_get items (py ''receive_timeout'') JNull
             in if text = [] then
                  ([], Inr (with_status (jsonify [(py ''error'', JStr (py ''text is required''))]) 400))
                else
                  (let args = \<lparr>arg_text = text, arg_voice = voice, arg_rate = rate,
                               arg_volume = volume, arg_pitch = pitch,
                               arg_word_boundary = word_boundary,
                               arg_sentence_boundary = sentence_boundary,
                               arg_proxy = proxy,
                               arg_connect_timeout = connect_timeout,
                               arg_receive_timeout = receive_timeout\<rparr>;
                       (calls, audio) = run_async (synthesize_to_mp3_bytes rt Communicate args)
                   in (SynthesizeCall args # calls,
                       case audio of
                         Inr audio \<Rightarrow>
                          if audio = [] then
                            Inr (with_status (jsonify [(py ''error'', JStr (py ''empty audio''))]) 500)
                          else Inr (Response audio (py ''audio/mpeg''))
                       | Inl exc \<Rightarrow>
                          if is_Exception exc then
                            Inr (with_status (jsonify [(py ''error'', JStr (exc_str exc))]) 500)
                          else Inl exc)))
         | _ \<Rightarrow> ([], Inl (AttributeError data ''get'')))"

text \<open>
  \<^verbatim>\<open>GET /api/voices\<close>. The installed library either has \<^verbatim>\<open>list_voices\<close>, whose
  call raises or returns the voices, or only \<^verbatim>\<open>VoicesManager.create\<close>, whose call
  raises or returns a manager; the manager's attribute \<^verbatim>\<open>voices\<close> is a list or is
  missing (\<open>None\<close>).
\<close>

datatype voices_lib =
    ListVoices "py_exception + json list"
  | VoicesManager "py_exception + json list option"

definition voices_api :: "voices_lib \<Rightarrow> py_exception + response" where
  "voices_api edge_tts =
     (case (case edge_tts of
              ListVoices list_voices \<Rightarrow> run_async list_voices
            | VoicesManager create \<Rightarrow>
               (case run_async create of
                  Inl exc \<Rightarrow> Inl exc
                | Inr manager \<Rightarrow>
                   Inr (let voices = (case manager of Some vs \<Rightarrow> vs | None \<Rightarrow> [])
                        in if voices \<noteq> [] then voices else []))) of
        Inr voices \<Rightarrow>
          Inr (jsonify [(py ''ok'', JBool True), (py ''fallback'', JBool False),
                        (py ''voices'', JArray voices)])
      | Inl exc \<Rightarrow>
          if is_Exception exc then
            Inr (with_status
                   (jsonify [(py ''ok'', JBool False), (py ''fallback'', JBool True),
                             (py ''error'', JStr (exc_str exc)),
                             (py ''voices'', JArray FALLBACK_VOICES)]) 200)
          else Inl exc)"

text \<open>\<^verbatim>\<open>GET /api/health\<close>.\<close>

definition health :: response where
  "health = jsonify [(py ''ok'', JBool True)]"

section \<open>Notions used by the properties\<close>

text \<open>
  The arguments the handler computes from the items of the request's dict (lines 102 to
  112 of the source), written once more as a function of the items.
\<close>

definition request_args :: "runtime \<Rightarrow> (pystr \<times> json) list \<Rightarrow> synth_args" where
  "request_args rt items =
     \<lparr>arg_text = strip (py_str rt (dict_get items (py ''text'') (JStr (py [])))),
      arg_voice = (let voice = strip (py_str rt (dict_get items (py ''voice'') (JStr DEFAULT_VOICE)))
                   in if voice \<noteq> [] then voice else DEFAULT_VOICE),
      arg_rate = (let rate = strip (py_str rt (dict_get items (py ''rate'') (JStr DEFAULT_RATE)))
                  in if rate \<noteq> [] then rate else DEFAULT_RATE),
      arg_volume = (let volume = strip (py_str rt (dict_get items (py ''volume'') (JStr DEFAULT_VOLUME)))
                    in if volume \<noteq> [] then volume else DEFAULT_VOLUME),
      arg_pitch = (let pitch = strip (py_str rt (dict_get items (py ''pitch'') (JStr DEFAULT_PITCH)))
                   in if pitch \<noteq> [] then pitch else DEFAULT_PITCH),
      arg_word_boundary = truthy (dict_get items (py ''word_boundary'') (JBool False)),
      arg_sentence_boundary = truthy (dict_get items (py ''sentence_boundary'') (JBool False)),
      arg_proxy = (case dict_get items (py ''proxy'') JNull of
                     JStr p \<Rightarrow> if strip p \<noteq> [] then Some (strip p) else None
                   | _ \<Rightarrow> None),
      arg_connect_timeout = dict_get items (py ''connect_timeout'') JNull,
      arg_receive_timeout = dict_get items (py ''receive_timeout'') JNull\<rparr>"

text \<open>The three responses of \<^verbatim>\<open>/api/tts\<close> that carry an error, and the audio response.\<close>

definition json_error :: "nat \<Rightarrow> pystr \<Rightarrow> response" where
  "json_error code message =
     \<lparr>status = code, mimetype = py ''application/json'',
      body = JsonPayload (JObject [(py ''error'', JStr message)])\<rparr>"

definition audio_response :: "bytes \<Rightarrow> response" where
  "audio_response audio = \<lparr>status = 200, mimetype = py ''audio/mpeg'', body = BytesPayload audio\<rparr>"

text \<open>What the handler makes of the outcome of the synthesis call (lines 132 to 136).\<close>

definition handle_audio :: "py_exception + bytes \<Rightarrow> py_exception + response" where
  "handle_audio r =
     (case r of
        Inr audio \<Rightarrow>
          if audio = [] then
            Inr (with_status (jsonify [(py ''error'', JStr (py ''empty audio''))]) 500)
          else Inr (Response audio (py ''audio/mpeg''))
      | Inl exc \<Rightarrow>
          if is_Exception exc then
            Inr (with_status (jsonify [(py ''error'', JStr (exc_str exc))]) 500)
          else Inl exc)"

text \<open>
  A chunk is an audio chunk when its type is the string \<^verbatim>\<open>audio\<close>; its data are the
  bytes under \<^verbatim>\<open>data\<close> (none when the key is missing or holds something else). The
  audio of a stream is the concatenation of the data of its audio chunks, in order.
\<close>

definition is_audio :: "chunk \<Rightarrow> bool" where
  "is_audio chunk \<longleftrightarrow> map_of chunk (py ''type'') = Some (CStr (py ''audio''))"

definition audio_data :: "chunk \<Rightarrow> bytes" where
  "audio_data chunk =
     (case map_of chunk (py ''data'') of
        Some (CBytes data) \<Rightarrow> data
      | Some (CByteArray data) \<Rightarrow> data
      | _ \<Rightarrow> [])"

definition audio_concat :: "chunk list \<Rightarrow> bytes" where
  "audio_concat stream = concat (map audio_data (filter is_audio stream))"

text \<open>
  The requests on which \<^verbatim>\<open>/api/tts\<close> finds no text: the body is not JSON, or it is
  a JSON value that Python takes for false (the handler reads it as the empty dict), or it
  is an object in which \<^verbatim>\<open>text\<close> is absent or is a string of whitespace only.
\<close>

definition text_missing_or_blank :: "json option \<Rightarrow> bool" where
  "text_missing_or_blank request_json =
     (case request_json of
        None \<Rightarrow> True
      | Some (JObject items) \<Rightarrow>
          (case map_of items (py ''text'') of
             None \<Rightarrow> True
           | Some (JStr s) \<Rightarrow> list_all isspace s
           | Some _ \<Rightarrow> False)
      | Some j \<Rightarrow> \<not> truthy j)"


text \<open>
  What the fetch of the voice list gave: the exception it raised, or the voices (none
  when the manager has no \<^verbatim>\<open>voices\<close>).
\<close>

fun fetch_result :: "voices_lib \<Rightarrow> py_exception + json list" where
  "fetch_result (ListVoices list_voices) = list_voices"
| "fetch_result (VoicesManager create) =
     (case create of
        Inl exc \<Rightarrow> Inl exc
      | Inr manager \<Rightarrow> Inr (case manager of Some vs \<Rightarrow> vs | None \<Rightarrow> []))"

text \<open>A field of the JSON object a handler returned; none when it raised.\<close>

definition response_field :: "py_exception + response \<Rightarrow> pystr \<Rightarrow> json option" where
  "response_field r key =
     (case r of
        Inr resp \<Rightarrow>
          (case body resp of
             JsonPayload (JObject d) \<Rightarrow> map_of d key
           | _ \<Rightarrow> None)
      | Inl exc \<Rightarrow> None)"

section \<open>Sample inputs\<close>

definition demo_runtime :: runtime where
  "demo_runtime =
     \<lparr>str_of = (\<lambda>v. py ''?''), float_of = (\<lambda>v. Inl (PyExc True (py ''could not convert'')))\<rparr>"

definition demo_stream :: "chunk list" where
  "demo_stream =
     [[(py ''type'', CStr (py ''audio'')), (py ''data'', CBytes [1, 2])],
      [(py ''type'', CStr (py ''WordBoundary'')), (py ''offset'', CNum 5)],
      [(py ''type'', CStr (py ''audio'')), (py ''data'', CByteArray [3])]]"

definition demo_client :: communicate where
  "demo_client kwargs = Inr (demo_stream, None)"

definition demo_items :: "(pystr \<times> json) list" where
  "demo_items = [(py ''text'', JStr (py ''hi''))]"

definition demo_args :: synth_args where
  "demo_args =
     \<lparr>arg_text = py ''hi'', arg_voice = DEFAULT_VOICE, arg_rate = DEFAULT_RATE,
      arg_volume = DEFAULT_VOLUME, arg_pitch = DEFAULT_PITCH, arg_word_boundary = False,
      arg_sentence_boundary = False, arg_proxy = None, arg_connect_timeout = JNull,
      arg_receive_timeout = JNull\<rparr>"

definition demo_kwargs :: kwargs where
  "demo_kwargs =
     [(py ''text'', KStr (py ''hi'')), (py ''voice'', KStr DEFAULT_VOICE),
      (py ''rate'', KStr DEFAULT_RATE), (py ''volume'', KStr DEFAULT_VOLUME),
      (py ''pitch'', KStr DEFAULT_PITCH)]"

definition blank_items :: "(pystr \<times> json) list" where
  "blank_items = [(py ''text'', JStr [32, 12288, 9])]"

text \<open>
  A client whose call fails with an ordinary error, and one whose call is cancelled:
  \<^verbatim>\<open>asyncio.CancelledError\<close> is not an \<^verbatim>\<open>Exception\<close>, and its \<^verbatim>\<open>str()\<close> is empty.
\<close>

definition failing_client :: communicate where
  "failing_client kwargs = Inl (PyExc True (py ''No audio was received''))"

definition cancelled_client :: communicate where
  "cancelled_client kwargs = Inl (PyExc False (py []))"

definition silent_client :: communicate where
  "silent_client kwargs = Inr ([], None)"

definition blank_voice_items :: "(pystr \<times> json) list" where
  "blank_voice_items = [(py ''text'', JStr (py ''hi'')), (py ''voice'', JStr [32, 9])]"

definition one_voice :: "json list" where
  "one_voice = [JObject [(py ''ShortName'', JStr (py ''en-US-AriaNeural''))]]"

section \<open>Strings\<close>

lemma py_eq_iff: "py a = py b \<longleftrightarrow> a = b"
  unfolding py_def by (simp add: inj_map_eq_map inj_of_char)

lemma py_Nil: "py [] = []"
  by (simp add: py_def)

lemma dropWhile_all_iff: "(\<forall>x\<in>set (dropWhile P xs). P x) \<longleftrightarrow> (\<forall>x\<in>set xs. P x)"
proof
  assume a: "\<forall>x\<in>set (dropWhile P xs). P x"
  have "dropWhile P xs = []"
  proof (rule ccontr)
    assume n: "dropWhile P xs \<noteq> []"
    then have "\<not> P (hd (dropWhile P xs))" by (rule hd_dropWhile)
    moreover have "hd (dropWhile P xs) \<in> set (dropWhile P xs)" using n by simp
    ultimately show False using a by blast
  qed
  then show "\<forall>x\<in>set xs. P x" by (simp add: dropWhile_eq_Nil_conv)
next
  assume "\<forall>x\<in>set xs. P x"
  then show "\<forall>x\<in>set (dropWhile P xs). P x" by (auto dest: set_dropWhileD)
qed

lemma strip_empty_iff: "strip s = [] \<longleftrightarrow> (\<forall>c\<in>set s. isspace c)"
  unfolding strip_def by (simp add: dropWhile_eq_Nil_conv dropWhile_all_iff)

lemma strip_id:
  assumes "s \<noteq> []" and "\<not> isspace (hd s)" and "\<not> isspace (last s)"
  shows "strip s = s"
proof -
  have "dropWhile isspace s = s"
    using assms(2) by (simp add: dropWhile_eq_self_iff)
  moreover have "dropWhile isspace (rev s) = rev s"
    using assms(1,3) by (simp add: dropWhile_eq_self_iff hd_rev)
  ultimately show ?thesis by (simp add: strip_def)
qed

lemma strip_defaults:
  "strip DEFAULT_VOICE = DEFAULT_VOICE" "strip DEFAULT_RATE = DEFAULT_RATE"
  "strip DEFAULT_VOLUME = DEFAULT_VOLUME" "strip DEFAULT_PITCH = DEFAULT_PITCH"
  by (rule strip_id;
      simp add: DEFAULT_VOICE_def DEFAULT_RATE_def DEFAULT_VOLUME_def DEFAULT_PITCH_def
        py_def isspace_def)+

lemma defaults_nonempty:
  "DEFAULT_VOICE \<noteq> []" "DEFAULT_RATE \<noteq> []" "DEFAULT_VOLUME \<noteq> []" "DEFAULT_PITCH \<noteq> []"
  by (simp_all add: DEFAULT_VOICE_def DEFAULT_RATE_def DEFAULT_VOLUME_def DEFAULT_PITCH_def py_def)

lemma strip_hi: "strip (py ''hi'') = py ''hi''"
  by (rule strip_id) (simp_all add: py_def isspace_def)

section \<open>build_boundary_option\<close>

text \<open>
  Claim C10. \<^verbatim>\<open>build_boundary_option\<close> returns \<^verbatim>\<open>None\<close> exactly when both flags are
  false; with the sentence flag alone it returns \<^verbatim>\<open>SentenceBoundary\<close>, with the word
  flag alone \<^verbatim>\<open>WordBoundary\<close>, and with both \<^verbatim>\<open>SentenceBoundary,WordBoundary\<close>, the
  sentence option first.
\<close>

theorem build_boundary_option_cases:
  "(build_boundary_option word_boundary sentence_boundary = None
      \<longleftrightarrow> \<not> word_boundary \<and> \<not> sentence_boundary) \<and>
   build_boundary_option False True = Some (py ''SentenceBoundary'') \<and>
   build_boundary_option True False = Some (py ''WordBoundary'') \<and>
   build_boundary_option True True = Some (py ''SentenceBoundary,WordBoundary'')"
  by (simp add: build_boundary_option_def py_def)

theorem build_boundary_option_cases_witness:
  "build_boundary_option False False = None \<and>
   build_boundary_option False True = Some (py ''SentenceBoundary'') \<and>
   build_boundary_option True False = Some (py ''WordBoundary'') \<and>
   build_boundary_option True True = Some (py ''SentenceBoundary,WordBoundary'')"
  using build_boundary_option_cases [of False False] by simp

section \<open>synthesize_to_mp3_bytes\<close>

lemma concat_collect_audio:
  "concat (collect_audio chunks stream) = concat chunks @ audio_concat stream"
proof (induction stream arbitrary: chunks)
  case Nil
  show ?case by (simp add: audio_concat_def)
next
  case (Cons chunk rest)
  have step: "concat (collect_audio chunks (chunk # rest)) =
      concat chunks @ (if is_audio chunk then audio_data chunk else []) @ audio_concat rest"
    by (simp add: Cons.IH is_audio_def audio_data_def dict_get_def
             split: option.splits chunk_value.splits)
  show ?case unfolding step by (simp add: audio_concat_def)
qed

lemma synthesize_calls:
  "CommunicateCall kwargs \<in> set (fst (synthesize_to_mp3_bytes rt Communicate a)) \<Longrightarrow>
   synthesize_to_mp3_bytes rt Communicate a =
     ([CommunicateCall kwargs],
      coroutine
        (case Communicate kwargs of
           Inl exc \<Rightarrow> Inl exc
         | Inr (stream, raised) \<Rightarrow>
             (case raised of
                Some exc \<Rightarrow> Inl exc
              | None \<Rightarrow> Inr (concat (collect_audio [] stream)))))"
  by (auto simp: synthesize_to_mp3_bytes_def Let_def split: sum.splits)

text \<open>A \<^verbatim>\<open>StopIteration\<close> of the client reaches the caller as a \<^verbatim>\<open>RuntimeError\<close>.\<close>

lemma synthesize_StopIteration:
  assumes "CommunicateCall kwargs \<in> set (fst (synthesize_to_mp3_bytes rt Communicate a))"
    and "Communicate kwargs = Inl (StopIteration s)"
  shows "snd (synthesize_to_mp3_bytes rt Communicate a) =
           Inl (PyExc True (py ''coroutine raised StopIteration''))"
  using synthesize_calls [OF assms(1)] assms(2) by simp

lemma demo_synthesize_calls:
  "fst (synthesize_to_mp3_bytes rt Communicate demo_args) = [CommunicateCall demo_kwargs]"
  by (simp add: synthesize_to_mp3_bytes_def demo_args_def demo_kwargs_def
        build_boundary_option_def set_timeout_def Let_def)

lemma audio_concat_demo: "audio_concat demo_stream = [1, 2, 3]"
  by (simp add: audio_concat_def demo_stream_def is_audio_def audio_data_def py_eq_iff)

text \<open>
  Claim C7. When the client was called and its stream ended without raising, the function
  returns the concatenation, in stream order, of the data of the chunks whose type is
  \<^verbatim>\<open>audio\<close>; the other chunks contribute nothing.
\<close>

theorem synthesize_concatenates_audio:
  assumes "CommunicateCall kwargs \<in> set (fst (synthesize_to_mp3_bytes rt Communicate a))"
    and "Communicate kwargs = Inr (stream, None)"
  shows "snd (synthesize_to_mp3_bytes rt Communicate a) = Inr (audio_concat stream)"
  using synthesize_calls [OF assms(1)] assms(2) by (simp add: concat_collect_audio)

theorem synthesize_concatenates_audio_witness:
  "CommunicateCall demo_kwargs
     \<in> set (fst (synthesize_to_mp3_bytes demo_runtime demo_client demo_args)) \<and>
   demo_client demo_kwargs = Inr (demo_stream, None) \<and>
   snd (synthesize_to_mp3_bytes demo_runtime demo_client demo_args) = Inr [1, 2, 3]"
proof -
  have c: "CommunicateCall demo_kwargs
      \<in> set (fst (synthesize_to_mp3_bytes demo_runtime demo_client demo_args))"
    by (simp add: demo_synthesize_calls)
  have s: "demo_client demo_kwargs = Inr (demo_stream, None)"
    by (simp add: demo_client_def)
  show ?thesis
    using synthesize_concatenates_audio [OF c s] c s by (simp add: audio_concat_demo)
qed

section \<open>The health handler\<close>

text \<open>
  Claim C8. \<^verbatim>\<open>GET /api/health\<close> answers with the JSON body \<^verbatim>\<open>{"ok": true}\<close>, whatever
  the request.
\<close>

theorem health_ok:
  "health = \<lparr>status = 200, mimetype = py ''application/json'',
              body = JsonPayload (JObject [(py ''ok'', JBool True)])\<rparr>"
  by (simp add: health_def jsonify_def)

section \<open>The handler of /api/tts\<close>

lemma json_error_fold:
  "with_status (jsonify [(py ''error'', JStr message)]) code = json_error code message"
  by (simp add: with_status_def jsonify_def json_error_def)

lemma audio_response_fold: "Response audio (py ''audio/mpeg'') = audio_response audio"
  by (simp add: Response_def audio_response_def)

lemma handle_audio_simps:
  "handle_audio (Inr audio) =
     Inr (if audio = [] then json_error 500 (py ''empty audio'') else audio_response audio)"
  "handle_audio (Inl exc) =
     (if is_Exception exc then Inr (json_error 500 (exc_str exc)) else Inl exc)"
  by (simp_all add: handle_audio_def json_error_fold audio_response_fold)

text \<open>On a JSON object the handler is the text check followed by the synthesis call.\<close>

lemma tts_api_object:
  "tts_api rt Communicate (Some (JObject items)) =
     (if arg_text (request_args rt items) = [] then
        ([], Inr (json_error 400 (py ''text is required'')))
      else
        (SynthesizeCall (request_args rt items)
           # fst (synthesize_to_mp3_bytes rt Communicate (request_args rt items)),
         handle_audio (snd (synthesize_to_mp3_bytes rt Communicate (request_args rt items)))))"
proof -
  have data: "(if truthy (JObject items) then JObject items else JObject []) = JObject items"
    by simp
  show ?thesis
    unfolding tts_api_def option.case data Let_def json.case split_def run_async_def
      handle_audio_def [symmetric] request_args_def json_error_fold [symmetric]
    by (simp split del: if_split)
qed

lemma tts_api_no_body:
  "tts_api rt Communicate None = tts_api rt Communicate (Some (JObject []))"
  unfolding tts_api_def by simp

lemma tts_api_falsy:
  "\<not> truthy j \<Longrightarrow> tts_api rt Communicate (Some j) = tts_api rt Communicate (Some (JObject []))"
  unfolding tts_api_def by simp

lemma tts_api_not_object:
  assumes "truthy j" and "\<forall>items. j \<noteq> JObject items"
  shows "tts_api rt Communicate (Some j) = ([], Inl (AttributeError j ''get''))"
  using assms by (cases j) (simp_all add: tts_api_def)

lemma text_of_no_items: "arg_text (request_args rt []) = []"
  by (simp add: request_args_def dict_get_def py_Nil strip_def)

lemma tts_api_empty_object:
  "tts_api rt Communicate (Some (JObject [])) = ([], Inr (json_error 400 (py ''text is required'')))"
  by (simp add: tts_api_object text_of_no_items)

lemma text_blank:
  assumes "map_of items (py ''text'') = None \<or>
           (\<exists>s. map_of items (py ''text'') = Some (JStr s) \<and> list_all isspace s)"
  shows "arg_text (request_args rt items) = []"
  using assms
  by (auto simp: request_args_def dict_get_def py_Nil strip_empty_iff list_all_iff)

text \<open>
  Where the text check works: when the body is not JSON, or is a JSON value that counts
  as false, or is an object whose \<^verbatim>\<open>text\<close> is absent or a string of whitespace only,
  the handler answers 400 with a JSON body that has an \<^verbatim>\<open>error\<close> field, and it makes
  no call: the trace is empty.
\<close>

lemma tts_api_text_required:
  assumes "text_missing_or_blank request_json"
  shows "tts_api rt Communicate request_json =
           ([], Inr \<lparr>status = 400, mimetype = py ''application/json'',
                     body = JsonPayload (JObject [(py ''error'', JStr (py ''text is required''))])\<rparr>)"
proof (cases request_json)
  case None
  then show ?thesis
    by (simp add: tts_api_no_body tts_api_empty_object json_error_def)
next
  case (Some j)
  show ?thesis
  proof (cases "\<exists>items. j = JObject items")
    case True
    then obtain items where j: "j = JObject items" by blast
    have "arg_text (request_args rt items) = []"
      using assms Some j
      by (intro text_blank) (auto simp: text_missing_or_blank_def split: option.splits json.splits)
    then show ?thesis
      using Some j by (simp add: tts_api_object json_error_def)
  next
    case False
    then have "\<not> truthy j"
      using assms Some by (cases j) (simp_all add: text_missing_or_blank_def)
    then show ?thesis
      using Some by (simp add: tts_api_falsy tts_api_empty_object json_error_def)
  qed
qed

lemma tts_api_text_required_example:
  "text_missing_or_blank (Some (JObject blank_items)) \<and>
   tts_api demo_runtime demo_client (Some (JObject blank_items)) =
     ([], Inr \<lparr>status = 400, mimetype = py ''application/json'',
               body = JsonPayload (JObject [(py ''error'', JStr (py ''text is required''))])\<rparr>)"
proof -
  have h: "text_missing_or_blank (Some (JObject blank_items))"
    by (simp add: text_missing_or_blank_def blank_items_def isspace_def)
  show ?thesis
    using tts_api_text_required [OF h, of demo_runtime demo_client] h by simp
qed

text \<open>
  A text that is \<^verbatim>\<open>null\<close> is not caught by the check: \<^verbatim>\<open>str(None)\<close> is the string
  \<^verbatim>\<open>None\<close>, which is sent to synthesis.
\<close>

lemma request_args_null_text:
  "arg_text (request_args rt [(py ''text'', JNull)]) = py ''None''"
proof -
  have "strip (py ''None'') = py ''None''"
    by (rule strip_id) (simp_all add: py_def isspace_def)
  then show ?thesis
    by (simp add: request_args_def dict_get_def)
qed

text \<open>
  Claim C1. A request whose body has no \<^verbatim>\<open>text\<close> is to get 400 with an
  \<^verbatim>\<open>error\<close> field. The handler sends bodies that are not JSON, and JSON values that
  count as false such as \<^verbatim>\<open>[]\<close>, through the check (\<^verbatim>\<open>get_json(silent=True) or {}\<close>),
  but a body that is JSON, counts as true and is no object misses it: for the array
  \<^verbatim>\<open>[1]\<close> the first \<^verbatim>\<open>data.get\<close> raises \<^verbatim>\<open>AttributeError\<close> outside the
  \<^verbatim>\<open>try\<close>, and the request ends in that exception, not in a 400.
\<close>

theorem tts_api_array_body_raises:
  "snd (tts_api demo_runtime demo_client (Some (JArray [JInt 1]))) =
     Inl (AttributeError (JArray [JInt 1]) ''get'')"
  by (simp add: tts_api_not_object)

lemma demo_request_args: "request_args rt demo_items = demo_args"
  by (simp add: request_args_def demo_items_def demo_args_def dict_get_def py_eq_iff
        strip_hi strip_defaults defaults_nonempty Let_def)

lemma demo_text: "arg_text (request_args rt demo_items) \<noteq> []"
  by (simp add: demo_request_args demo_args_def py_def)

lemma synthesize_demo_args:
  "synthesize_to_mp3_bytes rt Communicate demo_args =
     ([CommunicateCall demo_kwargs],
      coroutine
        (case Communicate demo_kwargs of
           Inl exc \<Rightarrow> Inl exc
         | Inr (stream, raised) \<Rightarrow>
             (case raised of
                Some exc \<Rightarrow> Inl exc
              | None \<Rightarrow> Inr (concat (collect_audio [] stream)))))"
  by (rule synthesize_calls) (simp add: demo_synthesize_calls)

text \<open>
  Claim C2, as the code has it. For a request whose text is not empty after stripping,
  when the synthesis call raises an exception that is an instance of \<^verbatim>\<open>Exception\<close>,
  the handler answers 500 with a JSON body whose \<^verbatim>\<open>error\<close> field is the text of the
  exception; such an exception does not leave the handler.
\<close>

theorem tts_api_synthesis_error:
  assumes "arg_text (request_args rt items) \<noteq> []"
    and "snd (synthesize_to_mp3_bytes rt Communicate (request_args rt items)) = Inl exc"
    and "is_Exception exc"
  shows "snd (tts_api rt Communicate (Some (JObject items))) =
           Inr \<lparr>status = 500, mimetype = py ''application/json'',
                 body = JsonPayload (JObject [(py ''error'', JStr (exc_str exc))])\<rparr>"
  using assms by (simp add: tts_api_object handle_audio_simps json_error_def)

theorem tts_api_synthesis_error_witness:
  "arg_text (request_args demo_runtime demo_items) \<noteq> [] \<and>
   snd (synthesize_to_mp3_bytes demo_runtime failing_client (request_args demo_runtime demo_items))
     = Inl (PyExc True (py ''No audio was received'')) \<and>
   is_Exception (PyExc True (py ''No audio was received'')) \<and>
   snd (tts_api demo_runtime failing_client (Some (JObject demo_items))) =
     Inr \<lparr>status = 500, mimetype = py ''application/json'',
           body = JsonPayload (JObject [(py ''error'', JStr (py ''No audio was received''))])\<rparr>"
proof -
  have s: "snd (synthesize_to_mp3_bytes demo_runtime failing_client
                  (request_args demo_runtime demo_items))
             = Inl (PyExc True (py ''No audio was received''))"
    by (simp add: demo_request_args synthesize_demo_args failing_client_def)
  have e: "is_Exception (PyExc True (py ''No audio was received''))"
    by simp
  show ?thesis
    using tts_api_synthesis_error [OF demo_text s e] demo_text s by simp
qed

text \<open>
  Claim C2 as stated fails for an exception that is no instance of \<^verbatim>\<open>Exception\<close>:
  when the synthesis call is cancelled, \<^verbatim>\<open>except Exception\<close> does not catch the
  \<^verbatim>\<open>CancelledError\<close>, and it leaves the handler.
\<close>

theorem tts_api_cancelled_escapes:
  "snd (synthesize_to_mp3_bytes demo_runtime cancelled_client (request_args demo_runtime demo_items))
     = Inl (PyExc False (py [])) \<and>
   snd (tts_api demo_runtime cancelled_client (Some (JObject demo_items)))
     = Inl (PyExc False (py []))"
  using demo_text
  by (simp add: tts_api_object handle_audio_simps demo_request_args synthesize_demo_args
        cancelled_client_def)

text \<open>
  Claim C3. For a request whose text is not empty after stripping, when the synthesis call
  returns audio, the response is that audio with content type \<^verbatim>\<open>audio/mpeg\<close> if it is
  not empty, and 500 with a JSON body that has an \<^verbatim>\<open>error\<close> field if it is empty.
\<close>

theorem tts_api_audio:
  assumes "arg_text (request_args rt items) \<noteq> []"
    and "snd (synthesize_to_mp3_bytes rt Communicate (request_args rt items)) = Inr audio"
  shows "snd (tts_api rt Communicate (Some (JObject items))) =
           Inr (if audio = [] then
                  \<lparr>status = 500, mimetype = py ''application/json'',
                   body = JsonPayload (JObject [(py ''error'', JStr (py ''empty audio''))])\<rparr>
                else \<lparr>status = 200, mimetype = py ''audio/mpeg'', body = BytesPayload audio\<rparr>)"
  using assms
  by (simp add: tts_api_object handle_audio_simps json_error_def audio_response_def)

theorem tts_api_audio_witness:
  "arg_text (request_args demo_runtime demo_items) \<noteq> [] \<and>
   snd (synthesize_to_mp3_bytes demo_runtime demo_client (request_args demo_runtime demo_items))
     = Inr [1, 2, 3] \<and>
   snd (tts_api demo_runtime demo_client (Some (JObject demo_items))) =
     Inr \<lparr>status = 200, mimetype = py ''audio/mpeg'', body = BytesPayload [1, 2, 3]\<rparr> \<and>
   snd (synthesize_to_mp3_bytes demo_runtime silent_client (request_args demo_runtime demo_items))
     = Inr [] \<and>
   snd (tts_api demo_runtime silent_client (Some (JObject demo_items))) =
     Inr \<lparr>status = 500, mimetype = py ''application/json'',
           body = JsonPayload (JObject [(py ''error'', JStr (py ''empty audio''))])\<rparr>"
proof -
  have a: "snd (synthesize_to_mp3_bytes demo_runtime demo_client
                  (request_args demo_runtime demo_items)) = Inr [1, 2, 3]"
    by (simp add: demo_request_args synthesize_demo_args demo_client_def
          concat_collect_audio audio_concat_demo)
  have b: "snd (synthesize_to_mp3_bytes demo_runtime silent_client
                  (request_args demo_runtime demo_items)) = Inr []"
    by (simp add: demo_request_args synthesize_demo_args silent_client_def)
  show ?thesis
    using tts_api_audio [OF demo_text a] tts_api_audio [OF demo_text b] demo_text a b
    by simp
qed

section \<open>Defaults of voice, rate, volume and pitch\<close>

text \<open>The client receives the five strings of the call unchanged.\<close>

lemma synthesize_kwargs:
  assumes "CommunicateCall kwargs \<in> set (fst (synthesize_to_mp3_bytes rt Communicate a))"
  shows "map_of kwargs (py ''voice'') = Some (KStr (arg_voice a))"
    and "map_of kwargs (py ''rate'') = Some (KStr (arg_rate a))"
    and "map_of kwargs (py ''volume'') = Some (KStr (arg_volume a))"
    and "map_of kwargs (py ''pitch'') = Some (KStr (arg_pitch a))"
  using assms
  by (auto simp: synthesize_to_mp3_bytes_def Let_def set_timeout_def py_eq_iff
           split: sum.splits option.splits if_splits)

lemma tts_api_communicate_call:
  assumes "CommunicateCall kwargs \<in> set (fst (tts_api rt Communicate request_json))"
  shows "\<exists>items. request_json = Some (JObject items) \<and>
           CommunicateCall kwargs
             \<in> set (fst (synthesize_to_mp3_bytes rt Communicate (request_args rt items)))"
proof (cases request_json)
  case None
  with assms show ?thesis
    by (simp add: tts_api_no_body tts_api_empty_object)
next
  case (Some j)
  show ?thesis
  proof (cases "\<exists>items. j = JObject items")
    case True
    then obtain items where j: "j = JObject items" by blast
    with assms Some show ?thesis
      by (auto simp: tts_api_object split: if_splits)
  next
    case False
    with assms Some show ?thesis
      by (cases "truthy j") (simp_all add: tts_api_not_object tts_api_falsy tts_api_empty_object)
  qed
qed


lemma args_blank:
  "map_of items (py ''voice'') = Some (JStr s) \<Longrightarrow> list_all isspace s \<Longrightarrow>
     arg_voice (request_args rt items) = DEFAULT_VOICE"
  "map_of items (py ''rate'') = Some (JStr s) \<Longrightarrow> list_all isspace s \<Longrightarrow>
     arg_rate (request_args rt items) = DEFAULT_RATE"
  "map_of items (py ''volume'') = Some (JStr s) \<Longrightarrow> list_all isspace s \<Longrightarrow>
     arg_volume (request_args rt items) = DEFAULT_VOLUME"
  "map_of items (py ''pitch'') = Some (JStr s) \<Longrightarrow> list_all isspace s \<Longrightarrow>
     arg_pitch (request_args rt items) = DEFAULT_PITCH"
  by (simp_all add: request_args_def dict_get_def strip_empty_iff list_all_iff)

lemma demo_call:
  "CommunicateCall demo_kwargs \<in> set (fst (tts_api rt Communicate (Some (JObject demo_items))))"
  using demo_text [of rt]
  by (simp add: tts_api_object demo_request_args demo_synthesize_calls)



text \<open>Removing a key from the items of a dict.\<close>

lemma map_of_remove:
  "map_of (filter (\<lambda>kv. fst kv \<noteq> key) items) k = (if k = key then None else map_of items k)"
  by (induction items) auto

lemma dict_get_remove:
  "dict_get (filter (\<lambda>kv. fst kv \<noteq> key) items) k d =
     (if k = key then d else dict_get items k d)"
  by (simp add: dict_get_def map_of_remove)

lemma request_args_remove_blank:
  assumes "key \<in> {py ''voice'', py ''rate'', py ''volume'', py ''pitch''}"
    and "map_of items key = Some (JStr s)"
    and "list_all isspace s"
  shows "request_args rt (filter (\<lambda>kv. fst kv \<noteq> key) items) = request_args rt items"
proof -
  have blank: "strip s = []"
    using assms(3) by (simp add: strip_empty_iff list_all_iff)
  have get: "dict_get items key d = JStr s" for d
    using assms(2) by (simp add: dict_get_def)
  consider "key = py ''voice''" | "key = py ''rate''" | "key = py ''volume''" | "key = py ''pitch''"
    using assms(1) by blast
  then show ?thesis
  proof cases
    case 1
    show ?thesis
      using get unfolding 1 request_args_def
      by (simp add: dict_get_remove py_eq_iff blank strip_defaults defaults_nonempty)
  next
    case 2
    show ?thesis
      using get unfolding 2 request_args_def
      by (simp add: dict_get_remove py_eq_iff blank strip_defaults defaults_nonempty)
  next
    case 3
    show ?thesis
      using get unfolding 3 request_args_def
      by (simp add: dict_get_remove py_eq_iff blank strip_defaults defaults_nonempty)
  next
    case 4
    show ?thesis
      using get unfolding 4 request_args_def
      by (simp add: dict_get_remove py_eq_iff blank strip_defaults defaults_nonempty)
  qed
qed

text \<open>
  Claim C9. When \<^verbatim>\<open>voice\<close>, \<^verbatim>\<open>rate\<close>, \<^verbatim>\<open>volume\<close> or \<^verbatim>\<open>pitch\<close> is present as an
  empty or whitespace-only string, the handler behaves exactly as on the same body
  without that field (same calls, same response), and the client receives the default
  for that field.
\<close>

theorem tts_api_blank_field:
  assumes "key \<in> {py ''voice'', py ''rate'', py ''volume'', py ''pitch''}"
    and "map_of items key = Some (JStr s)"
    and "list_all isspace s"
  shows "tts_api rt Communicate (Some (JObject items)) =
           tts_api rt Communicate (Some (JObject (filter (\<lambda>kv. fst kv \<noteq> key) items))) \<and>
         (CommunicateCall kwargs \<in> set (fst (tts_api rt Communicate (Some (JObject items)))) \<longrightarrow>
            map_of kwargs key =
              Some (KStr (if key = py ''voice'' then DEFAULT_VOICE
                          else if key = py ''rate'' then DEFAULT_RATE
                          else if key = py ''volume'' then DEFAULT_VOLUME
                          else DEFAULT_PITCH)))"
proof
  show "tts_api rt Communicate (Some (JObject items)) =
          tts_api rt Communicate (Some (JObject (filter (\<lambda>kv. fst kv \<noteq> key) items)))"
    by (simp only: tts_api_object request_args_remove_blank [OF assms])
next
  show "CommunicateCall kwargs \<in> set (fst (tts_api rt Communicate (Some (JObject items)))) \<longrightarrow>
          map_of kwargs key =
            Some (KStr (if key = py ''voice'' then DEFAULT_VOICE
                        else if key = py ''rate'' then DEFAULT_RATE
                        else if key = py ''volume'' then DEFAULT_VOLUME
                        else DEFAULT_PITCH))"
  proof
    assume "CommunicateCall kwargs \<in> set (fst (tts_api rt Communicate (Some (JObject items))))"
    then have c: "CommunicateCall kwargs
        \<in> set (fst (synthesize_to_mp3_bytes rt Communicate (request_args rt items)))"
      using tts_api_communicate_call by blast
    consider "key = py ''voice''" | "key = py ''rate''" | "key = py ''volume''"
      | "key = py ''pitch''"
      using assms(1) by blast
    then show "map_of kwargs key =
            Some (KStr (if key = py ''voice'' then DEFAULT_VOICE
                        else if key = py ''rate'' then DEFAULT_RATE
                        else if key = py ''volume'' then DEFAULT_VOLUME
                        else DEFAULT_PITCH))"
    proof cases
      case 1
      then show ?thesis
        using synthesize_kwargs(1) [OF c] args_blank(1) [of items s rt] assms(2,3) by simp
    next
      case 2
      then show ?thesis
        using synthesize_kwargs(2) [OF c] args_blank(2) [of items s rt] assms(2,3)
        by (simp add: py_eq_iff)
    next
      case 3
      then show ?thesis
        using synthesize_kwargs(3) [OF c] args_blank(3) [of items s rt] assms(2,3)
        by (simp add: py_eq_iff)
    next
      case 4
      then show ?thesis
        using synthesize_kwargs(4) [OF c] args_blank(4) [of items s rt] assms(2,3)
        by (simp add: py_eq_iff)
    qed
  qed
qed

theorem tts_api_blank_field_witness:
  "py ''voice'' \<in> {py ''voice'', py ''rate'', py ''volume'', py ''pitch''} \<and>
   map_of blank_voice_items (py ''voice'') = Some (JStr [32, 9]) \<and>
   list_all isspace [32, 9] \<and>
   tts_api demo_runtime demo_client (Some (JObject blank_voice_items)) =
     tts_api demo_runtime demo_client (Some (JObject demo_items)) \<and>
   CommunicateCall demo_kwargs
     \<in> set (fst (tts_api demo_runtime demo_client (Some (JObject blank_voice_items)))) \<and>
   map_of demo_kwargs (py ''voice'') = Some (KStr DEFAULT_VOICE)"
proof -
  have k: "py ''voice'' \<in> {py ''voice'', py ''rate'', py ''volume'', py ''pitch''}"
    by simp
  have m: "map_of blank_voice_items (py ''voice'') = Some (JStr [32, 9])"
    by (simp add: blank_voice_items_def py_eq_iff)
  have b: "list_all isspace [32, 9]"
    by (simp add: isspace_def)
  have f: "filter (\<lambda>kv. fst kv \<noteq> py ''voice'') blank_voice_items = demo_items"
    by (simp add: blank_voice_items_def demo_items_def py_eq_iff)
  note t = tts_api_blank_field [OF k m b, of demo_runtime demo_client demo_kwargs]
  have e: "tts_api demo_runtime demo_client (Some (JObject blank_voice_items)) =
      tts_api demo_runtime demo_client (Some (JObject demo_items))"
    using t by (simp add: f)
  have c: "CommunicateCall demo_kwargs
      \<in> set (fst (tts_api demo_runtime demo_client (Some (JObject blank_voice_items))))"
    by (simp add: e demo_call)
  show ?thesis
    using t k m b e c by simp
qed

section \<open>The handler of /api/voices\<close>

lemma voices_api_fetch:
  "voices_api edge_tts =
     (case fetch_result edge_tts of
        Inr voices \<Rightarrow>
          Inr (jsonify [(py ''ok'', JBool True), (py ''fallback'', JBool False),
                        (py ''voices'', JArray voices)])
      | Inl exc \<Rightarrow>
          if is_Exception exc then
            Inr (with_status
                   (jsonify [(py ''ok'', JBool False), (py ''fallback'', JBool True),
                             (py ''error'', JStr (exc_str exc)),
                             (py ''voices'', JArray FALLBACK_VOICES)]) 200)
          else Inl exc)"
proof (cases edge_tts)
  case (ListVoices list_voices)
  then show ?thesis by (simp add: voices_api_def run_async_def)
next
  case (VoicesManager create)
  then show ?thesis
    by (cases create) (simp_all add: voices_api_def run_async_def Let_def)
qed

lemma voices_field:
  "response_field (voices_api edge_tts) (py ''voices'') =
     (case fetch_result edge_tts of
        Inr voices \<Rightarrow> Some (JArray voices)
      | Inl exc \<Rightarrow> if is_Exception exc then Some (JArray FALLBACK_VOICES) else None)"
  by (simp add: voices_api_fetch response_field_def jsonify_def with_status_def py_eq_iff
        split: sum.split)

lemma fallback_nonempty: "FALLBACK_VOICES \<noteq> []"
  by (simp add: FALLBACK_VOICES_def)

text \<open>
  Claim C4, as the code has it. The \<^verbatim>\<open>voices\<close> list of the response is not empty when
  the fetch raises an instance of \<^verbatim>\<open>Exception\<close> (it is then the fallback list) and when
  the fetch returns a list that is not empty (it is then that list).
\<close>

theorem voices_api_nonempty:
  assumes "case fetch_result edge_tts of Inl exc \<Rightarrow> is_Exception exc | Inr voices \<Rightarrow> voices \<noteq> []"
  shows "response_field (voices_api edge_tts) (py ''voices'') =
           Some (JArray (case fetch_result edge_tts of
                           Inl exc \<Rightarrow> FALLBACK_VOICES
                         | Inr voices \<Rightarrow> voices)) \<and>
         (case fetch_result edge_tts of Inl exc \<Rightarrow> FALLBACK_VOICES | Inr voices \<Rightarrow> voices) \<noteq> []"
  using assms
  by (cases "fetch_result edge_tts") (simp_all add: voices_field fallback_nonempty)

theorem voices_api_nonempty_witness:
  "response_field (voices_api (ListVoices (Inl (PyExc True (py ''Cannot connect''))))) (py ''voices'')
     = Some (JArray FALLBACK_VOICES) \<and>
   FALLBACK_VOICES \<noteq> [] \<and>
   response_field (voices_api (VoicesManager (Inr (Some one_voice)))) (py ''voices'')
     = Some (JArray one_voice) \<and>
   one_voice \<noteq> []"
proof -
  have a: "case fetch_result (ListVoices (Inl (PyExc True (py ''Cannot connect'')))) of
             Inl exc \<Rightarrow> is_Exception exc | Inr voices \<Rightarrow> voices \<noteq> []"
    by simp
  have b: "case fetch_result (VoicesManager (Inr (Some one_voice))) of
             Inl exc \<Rightarrow> is_Exception exc | Inr voices \<Rightarrow> voices \<noteq> []"
    by (simp add: one_voice_def)
  show ?thesis
    using voices_api_nonempty [OF a] voices_api_nonempty [OF b] by simp
qed

text \<open>
  Claim C4 as stated fails when the fetch succeeds with an empty list: the handler passes
  the empty list on. It also fails when the fetch raises what is no instance of
  \<^verbatim>\<open>Exception\<close>: there is no response then.
\<close>

theorem voices_api_empty_list:
  "response_field (voices_api (ListVoices (Inr []))) (py ''voices'') = Some (JArray []) \<and>
   response_field (voices_api (VoicesManager (Inr None))) (py ''voices'') = Some (JArray []) \<and>
   response_field (voices_api (VoicesManager (Inl (PyExc False (py []))))) (py ''voices'') = None"
  by (simp add: voices_field)

text \<open>
  Claim C5, as the code has it. When the fetch raises an instance of \<^verbatim>\<open>Exception\<close>,
  the handler answers 200 with \<^verbatim>\<open>ok\<close> false, \<^verbatim>\<open>fallback\<close> true and the hardcoded
  fallback list as \<^verbatim>\<open>voices\<close>.
\<close>

theorem voices_api_fallback:
  assumes "fetch_result edge_tts = Inl exc" and "is_Exception exc"
  shows "voices_api edge_tts =
           Inr \<lparr>status = 200, mimetype = py ''application/json'',
                 body = JsonPayload (JObject
                   [(py ''ok'', JBool False), (py ''fallback'', JBool True),
                    (py ''error'', JStr (exc_str exc)),
                    (py ''voices'', JArray FALLBACK_VOICES)])\<rparr>"
  using assms by (simp add: voices_api_fetch jsonify_def with_status_def)

theorem voices_api_fallback_witness:
  "fetch_result (VoicesManager (Inl (PyExc True (py ''Cannot connect''))))
     = Inl (PyExc True (py ''Cannot connect'')) \<and>
   is_Exception (PyExc True (py ''Cannot connect'')) \<and>
   voices_api (VoicesManager (Inl (PyExc True (py ''Cannot connect'')))) =
     Inr \<lparr>status = 200, mimetype = py ''application/json'',
           body = JsonPayload (JObject
             [(py ''ok'', JBool False), (py ''fallback'', JBool True),
              (py ''error'', JStr (py ''Cannot connect'')),
              (py ''voices'', JArray FALLBACK_VOICES)])\<rparr>"
proof -
  have f: "fetch_result (VoicesManager (Inl (PyExc True (py ''Cannot connect''))))
      = Inl (PyExc True (py ''Cannot connect''))"
    by simp
  have e: "is_Exception (PyExc True (py ''Cannot connect''))"
    by simp
  show ?thesis
    using voices_api_fallback [OF f e] f e by simp
qed

text \<open>
  Claim C5 as stated fails for an exception that is no instance of \<^verbatim>\<open>Exception\<close>:
  a fetch that is cancelled raises \<^verbatim>\<open>CancelledError\<close>, which \<^verbatim>\<open>except Exception\<close>
  lets through, and the handler returns no response.
\<close>

theorem voices_api_cancelled_escapes:
  "voices_api (ListVoices (Inl (PyExc False (py [])))) = Inl (PyExc False (py []))"
  by (simp add: voices_api_fetch)

end
